theory Spec2Isabelle
  imports Complex_Main
begin

section \<open>compass/db/models.py: the installation-progress state records\<close>

text \<open>
  The theory embeds the state classes of \<^verbatim>\<open>compass/db/models.py\<close>
  (\<^verbatim>\<open>StateMixin\<close>, \<^verbatim>\<open>HostState\<close>, \<^verbatim>\<open>ClusterHostState\<close>, \<^verbatim>\<open>ClusterState\<close>), the
  \<^verbatim>\<open>update\<close> method of \<^verbatim>\<open>Host\<close> and the configuration setters of \<^verbatim>\<open>Host\<close>,
  \<^verbatim>\<open>ClusterHost\<close> and \<^verbatim>\<open>Cluster\<close>.

  Conventions of the embedding:
  \<^item> the two \<^verbatim>\<open>Enum\<close> columns are datatypes; the severity \<^verbatim>\<open>'ERROR'\<close> is written
    \<open>SEVERITY_ERROR\<close>, since the state \<^verbatim>\<open>'ERROR'\<close> already owns the name;
  \<^item> the \<^verbatim>\<open>Float\<close> column \<^verbatim>\<open>percentage\<close> is a \<open>real\<close>: the code only assigns it the
    constants 0.0 and 1.0, compares it with 1.0 and divides one host count by another, so
    rounding is left out of the model;
  \<^item> the \<^verbatim>\<open>Integer\<close> counters are \<open>int\<close>, as Python's integers are unbounded;
  \<^item> objects live in a store of tables, a method takes the store and the primary key of
    \<^verbatim>\<open>self\<close>, and an attribute read on a missing object (\<^verbatim>\<open>None\<close>) raises
    \<^verbatim>\<open>AttributeError\<close>, as it does in Python.
\<close>

subsection \<open>Columns of \<^verbatim>\<open>StateMixin\<close> (lines 267-280)\<close>

datatype state_value = UNINITIALIZED | INITIALIZED | INSTALLING | SUCCESSFUL | ERROR

datatype severity_value = INFO | WARNING | SEVERITY_ERROR

record state_record =
  state :: state_value
  percentage :: real
  message :: string
  severity :: severity_value

subsection \<open>\<^verbatim>\<open>StateMixin.update\<close> (lines 282-295)\<close>

text \<open>
  The three \<^verbatim>\<open>if\<close> statements run one after the other on the same object, each reading
  what the one before has written. The closing \<^verbatim>\<open>super(StateMixin, self).update()\<close> is
  \<^verbatim>\<open>HelperMixin.update\<close>, whose body is \<^verbatim>\<open>pass\<close>. The function is defined on the record
  scheme, so that it also serves the subclass \<^verbatim>\<open>ClusterState\<close>, which adds columns.
\<close>

definition reset_if_not_started :: "'a state_record_scheme \<Rightarrow> 'a state_record_scheme" where
  "reset_if_not_started self =
     (if state self \<in> set [UNINITIALIZED, INITIALIZED]
      then self\<lparr>percentage := 0, severity := INFO, message := ''''\<rparr>
      else self)"

definition finish_if_installing :: "'a state_record_scheme \<Rightarrow> 'a state_record_scheme" where
  "finish_if_installing self =
     (if state self = INSTALLING
      then (if severity self = SEVERITY_ERROR then self\<lparr>state := ERROR\<rparr>
            else if percentage self \<ge> 1 then self\<lparr>state := SUCCESSFUL, percentage := 1\<rparr>
            else self)
      else self)"

definition complete_if_successful :: "'a state_record_scheme \<Rightarrow> 'a state_record_scheme" where
  "complete_if_successful self =
     (if state self = SUCCESSFUL then self\<lparr>percentage := 1\<rparr> else self)"

definition StateMixin_update :: "'a state_record_scheme \<Rightarrow> 'a state_record_scheme" where
  "StateMixin_update self =
     complete_if_successful (finish_if_installing (reset_if_not_started self))"

subsection \<open>Exceptions and results\<close>

text \<open>
  A method either returns or raises. Python does not undo the assignments made before a
  raise, so a raised exception carries the store as the statements before it left it:
  \<open>Inl (e, s)\<close> is "raised \<open>e\<close> in store \<open>s\<close>", \<open>Inr s\<close> is "returned in store \<open>s\<close>".
\<close>

datatype error = AttributeError | TypeError | ZeroDivisionError

type_synonym 's result = "(error \<times> 's) + 's"

definition and_then :: "'s result \<Rightarrow> ('s \<Rightarrow> 's result) \<Rightarrow> 's result" where
  "and_then r f = (case r of Inl e \<Rightarrow> Inl e | Inr s \<Rightarrow> f s)"

definition float_div :: "int \<Rightarrow> int \<Rightarrow> error + real" where
  \<comment> \<open>\<^verbatim>\<open>float(a) / float(b)\<close>; the quotient is the exact one, where Python rounds it to a
      double (1/3 is 0.3333333333333333 there); the quotients evaluated below, 1/1 and
      2/1, are exact in both\<close>
  "float_div a b = (if b = 0 then Inl ZeroDivisionError else Inr (real_of_int a / real_of_int b))"

subsection \<open>Tables\<close>

text \<open>
  Rows are kept in tables keyed by primary key, and a relationship is resolved through the
  foreign key it is declared on. Only the columns that the embedded methods read or write
  are kept. Several tables share column names (\<^verbatim>\<open>config_validated\<close>, \<^verbatim>\<open>os_config\<close>, ...); a
  record field carries the table's name where that is needed to tell them apart.
\<close>

datatype json = JNull | JBool bool | JInt int | JStr string | JList "json list"
  | JDict "(string \<times> json) list"

type_synonym config = "string \<rightharpoonup> json"

record host =
  host_os_id :: "nat option"
  host_os_name :: "string option"
  host_os_config :: config
  host_config_validated :: bool
  reinstall_os :: bool

record clusterhost =
  clusterhost_id :: nat
  cluster_id :: nat
  host_id :: nat
  clusterhost_package_config :: config
  clusterhost_config_validated :: bool

record cluster =
  reinstall_distributed_system :: bool
  distributed_system_id :: "nat option"
  cluster_os_config :: config
  cluster_package_config :: config
  cluster_config_validated :: bool

text \<open>\<^verbatim>\<open>ClusterState\<close> (lines 786-810) adds four counters to the columns of \<^verbatim>\<open>StateMixin\<close>.\<close>

record cluster_state_record = state_record +
  total_hosts :: int
  installing_hosts :: int
  completed_hosts :: int
  failed_hosts :: int

text \<open>
  The primary key of a state row is the foreign key to its owner (lines 390-394, 607-611,
  790-794), so a state table is keyed by the owner's id. \<open>os_table\<close> and
  \<open>distributed_system_table\<close> keep the \<^verbatim>\<open>name\<close> column of \<^verbatim>\<open>OperatingSystem\<close> and
  \<^verbatim>\<open>DistributedSystem\<close> rows.
\<close>

record database =
  host_table :: "nat \<rightharpoonup> host"
  host_state_table :: "nat \<rightharpoonup> state_record"
  clusterhost_table :: "clusterhost list"
  clusterhost_state_table :: "nat \<rightharpoonup> state_record"
  cluster_table :: "nat \<rightharpoonup> cluster"
  cluster_state_table :: "nat \<rightharpoonup> cluster_state_record"
  os_table :: "nat \<rightharpoonup> string option"
  distributed_system_table :: "nat \<rightharpoonup> string option"

definition modify :: "'k \<Rightarrow> ('v \<Rightarrow> 'v) \<Rightarrow> ('k \<rightharpoonup> 'v) \<Rightarrow> ('k \<rightharpoonup> 'v)" where
  \<comment> \<open>an in-place change of the row with key \<open>k\<close>\<close>
  "modify k f m = (case m k of None \<Rightarrow> m | Some v \<Rightarrow> m(k \<mapsto> f v))"

subsection \<open>Relationships\<close>

definition Host_clusterhosts :: "database \<Rightarrow> nat \<Rightarrow> clusterhost list" where
  \<comment> \<open>\<^verbatim>\<open>Host.clusterhosts\<close>, line 665\<close>
  "Host_clusterhosts db h = filter (\<lambda>clusterhost. host_id clusterhost = h) (clusterhost_table db)"

definition Cluster_clusterhosts :: "database \<Rightarrow> nat \<Rightarrow> clusterhost list" where
  \<comment> \<open>\<^verbatim>\<open>Cluster.clusterhosts\<close>, line 893\<close>
  "Cluster_clusterhosts db c =
     filter (\<lambda>clusterhost. cluster_id clusterhost = c) (clusterhost_table db)"

definition ClusterHostState_host :: "database \<Rightarrow> nat \<Rightarrow> clusterhost option" where
  \<comment> \<open>the \<^verbatim>\<open>backref('host')\<close> of \<^verbatim>\<open>ClusterHost.state\<close>, line 436: the attribute \<^verbatim>\<open>host\<close> of a
      \<^verbatim>\<open>ClusterHostState\<close> is the \<^verbatim>\<open>ClusterHost\<close> that owns it, not a \<^verbatim>\<open>Host\<close>\<close>
  "ClusterHostState_host db k =
     find (\<lambda>clusterhost. clusterhost_id clusterhost = k) (clusterhost_table db)"

definition Host_os :: "database \<Rightarrow> host \<Rightarrow> string option option" where
  \<comment> \<open>the \<^verbatim>\<open>backref('os')\<close> of \<^verbatim>\<open>OperatingSystem.hosts\<close>, line 1575\<close>
  "Host_os db self = (case host_os_id self of None \<Rightarrow> None | Some i \<Rightarrow> os_table db i)"

definition Cluster_distributed_system :: "database \<Rightarrow> cluster \<Rightarrow> string option option" where
  \<comment> \<open>the \<^verbatim>\<open>backref('distributed_system')\<close> of \<^verbatim>\<open>DistributedSystem.clusters\<close>, line 1909\<close>
  "Cluster_distributed_system db self =
     (case distributed_system_id self of None \<Rightarrow> None | Some i \<Rightarrow> distributed_system_table db i)"

subsection \<open>Values compared by \<^verbatim>\<open>in\<close>\<close>

text \<open>
  The methods test membership in a list of state names with \<^verbatim>\<open>x in [...]\<close>. The left
  operand is in some places the string column \<^verbatim>\<open>state\<close> and in others the related state
  \<^emph>\<open>object\<close> (\<^verbatim>\<open>Host.state\<close>, \<^verbatim>\<open>ClusterHost.state\<close>), or \<^verbatim>\<open>None\<close> when there is no such object.
  None of the model classes defines \<^verbatim>\<open>__eq__\<close>, so an object equals only itself, and never
  a string.
\<close>

datatype operand = Name state_value | HostStateObject nat | ClusterHostStateObject nat | NoneObject

definition py_in :: "operand \<Rightarrow> operand list \<Rightarrow> bool" where
  "py_in x xs = (x \<in> set xs)"

definition Host_state :: "database \<Rightarrow> nat \<Rightarrow> operand" where
  \<comment> \<open>\<^verbatim>\<open>Host.state\<close>, line 671\<close>
  "Host_state db h =
     (case host_state_table db h of None \<Rightarrow> NoneObject | Some _ \<Rightarrow> HostStateObject h)"

definition ClusterHost_state :: "database \<Rightarrow> clusterhost \<Rightarrow> operand" where
  \<comment> \<open>\<^verbatim>\<open>ClusterHost.state\<close>, line 431\<close>
  "ClusterHost_state db clusterhost =
     (case clusterhost_state_table db (clusterhost_id clusterhost) of
        None \<Rightarrow> NoneObject
      | Some _ \<Rightarrow> ClusterHostStateObject (clusterhost_id clusterhost))"

subsection \<open>\<^verbatim>\<open>HostState.update\<close> (lines 613-637)\<close>

text \<open>
  Each of the three loops tests \<^verbatim>\<open>clusterhost.state in [...]\<close>, where \<^verbatim>\<open>clusterhost.state\<close>
  is the related \<^verbatim>\<open>ClusterHostState\<close> object. In the body, \<^verbatim>\<open>clusterhost.state = '...'\<close>
  assigns a string to that relationship attribute; SQLAlchemy's attribute instrumentation
  asks the assigned value for its instance state, which a string does not have, and the
  \<^verbatim>\<open>update()\<close> call of the next line has no string method to reach either: the body raises
  \<^verbatim>\<open>AttributeError\<close> whichever name is assigned.
\<close>

fun cascade_to_clusterhosts :: "state_value list \<Rightarrow> clusterhost list \<Rightarrow> database \<Rightarrow> database result" where
  "cascade_to_clusterhosts names [] db = Inr db"
| "cascade_to_clusterhosts names (clusterhost # rest) db =
     (if py_in (ClusterHost_state db clusterhost) (map Name names)
      then Inl (AttributeError, db)
      else cascade_to_clusterhosts names rest db)"

definition HostState_update :: "database \<Rightarrow> nat \<Rightarrow> database result" where
  "HostState_update db self_id =
     (case host_state_table db self_id of
        None \<Rightarrow> Inl (AttributeError, db)
      | Some self \<Rightarrow>
          and_then
            (if state self = INSTALLING then
               (case host_table db self_id of
                  None \<Rightarrow> Inl (AttributeError, db)
                | Some host \<Rightarrow>
                    let db = db\<lparr>host_table := (host_table db)(self_id \<mapsto> host\<lparr>reinstall_os := False\<rparr>)\<rparr>
                    in cascade_to_clusterhosts [SUCCESSFUL, ERROR] (Host_clusterhosts db self_id) db)
             else if state self = UNINITIALIZED then
               (case host_table db self_id of
                  None \<Rightarrow> Inl (AttributeError, db)
                | Some host \<Rightarrow>
                    cascade_to_clusterhosts [INITIALIZED, INSTALLING, SUCCESSFUL, ERROR]
                      (Host_clusterhosts db self_id) db)
             else if state self = INITIALIZED then
               (case host_table db self_id of
                  None \<Rightarrow> Inl (AttributeError, db)
                | Some host \<Rightarrow>
                    cascade_to_clusterhosts [INSTALLING, SUCCESSFUL, ERROR]
                      (Host_clusterhosts db self_id) db)
             else Inr db)
            (\<lambda>db. Inr (db\<lparr>host_state_table := modify self_id StateMixin_update (host_state_table db)\<rparr>)))"

subsection \<open>\<^verbatim>\<open>ClusterHostState.update\<close> (lines 396-406)\<close>

text \<open>
  \<^verbatim>\<open>host_state = self.host.state\<close> follows the backref of line 436 to the owning
  \<^verbatim>\<open>ClusterHost\<close> and then that row's relationship \<^verbatim>\<open>state\<close> of line 431, which is a
  \<^verbatim>\<open>ClusterHostState\<close>; \<^verbatim>\<open>host_state.update()\<close> is therefore this same method. The
  recursion is written as the source has it. It ends because the object reached is
  \<^verbatim>\<open>self\<close>, whose state cannot pass both tests of a branch.
\<close>

function ClusterHostState_update :: "database \<Rightarrow> nat \<Rightarrow> database result" where
  "ClusterHostState_update db self_id =
     (case clusterhost_state_table db self_id of
        None \<Rightarrow> Inl (AttributeError, db)
      | Some self \<Rightarrow>
          (case ClusterHostState_host db self_id of
             None \<Rightarrow> Inl (AttributeError, db)
           | Some clusterhost \<Rightarrow>
               and_then
                 (if state self = INITIALIZED then
                    (case clusterhost_state_table db (clusterhost_id clusterhost) of
                       None \<Rightarrow> Inl (AttributeError, db)
                     | Some host_state \<Rightarrow>
                         if state host_state \<in> set [UNINITIALIZED] then
                           ClusterHostState_update
                             (db\<lparr>clusterhost_state_table := (clusterhost_state_table db)
                                   (clusterhost_id clusterhost \<mapsto> host_state\<lparr>state := INITIALIZED\<rparr>)\<rparr>)
                             (clusterhost_id clusterhost)
                         else Inr db)
                  else if state self = INSTALLING then
                    (case clusterhost_state_table db (clusterhost_id clusterhost) of
                       None \<Rightarrow> Inl (AttributeError, db)
                     | Some host_state \<Rightarrow>
                         if state host_state \<in> set [UNINITIALIZED, INITIALIZED] then
                           ClusterHostState_update
                             (db\<lparr>clusterhost_state_table := (clusterhost_state_table db)
                                   (clusterhost_id clusterhost \<mapsto> host_state\<lparr>state := INSTALLING\<rparr>)\<rparr>)
                             (clusterhost_id clusterhost)
                         else Inr db)
                  else Inr db)
                 (\<lambda>db. Inr (db\<lparr>clusterhost_state_table :=
                                 modify self_id StateMixin_update (clusterhost_state_table db)\<rparr>))))"
  by pat_completeness auto

termination ClusterHostState_update
proof (relation "{}")
  show "wf {}" by simp
next
  fix db self_id self clusterhost host_state
  assume "clusterhost_state_table db self_id = Some self"
    and "ClusterHostState_host db self_id = Some clusterhost"
    and "state self = INITIALIZED"
    and "clusterhost_state_table db (clusterhost_id clusterhost) = Some host_state"
    and "state host_state \<in> set [UNINITIALIZED]"
  then show "((db\<lparr>clusterhost_state_table := (clusterhost_state_table db)
                   (clusterhost_id clusterhost \<mapsto> host_state\<lparr>state := INITIALIZED\<rparr>)\<rparr>,
               clusterhost_id clusterhost), db, self_id) \<in> {}"
    by (auto simp: ClusterHostState_host_def find_Some_iff)
next
  fix db self_id self clusterhost host_state
  assume "clusterhost_state_table db self_id = Some self"
    and "ClusterHostState_host db self_id = Some clusterhost"
    and "state self \<noteq> INITIALIZED"
    and "state self = INSTALLING"
    and "clusterhost_state_table db (clusterhost_id clusterhost) = Some host_state"
    and "state host_state \<in> set [UNINITIALIZED, INITIALIZED]"
  then show "((db\<lparr>clusterhost_state_table := (clusterhost_state_table db)
                   (clusterhost_id clusterhost \<mapsto> host_state\<lparr>state := INSTALLING\<rparr>)\<rparr>,
               clusterhost_id clusterhost), db, self_id) \<in> {}"
    by (auto simp: ClusterHostState_host_def find_Some_iff)
qed

declare ClusterHostState_update.simps [simp del]

subsection \<open>\<^verbatim>\<open>Host.update\<close> (lines 719-732)\<close>

text \<open>
  The test of line 721 is \<^verbatim>\<open>self.state in ['SUCCESSFUL', 'ERROR']\<close>, on the related
  \<^verbatim>\<open>HostState\<close> object; the assignments below it go to the column, \<^verbatim>\<open>self.state.state\<close>.
  The closing \<^verbatim>\<open>super(Host, self).update()\<close> is \<^verbatim>\<open>HelperMixin.update\<close>.
\<close>

definition Host_update :: "database \<Rightarrow> nat \<Rightarrow> database result" where
  "Host_update db self_id =
     (case host_table db self_id of
        None \<Rightarrow> Inl (AttributeError, db)
      | Some self \<Rightarrow>
          and_then
            (if reinstall_os self then
               if py_in (Host_state db self_id) (map Name [SUCCESSFUL, ERROR]) then
                 (case host_state_table db self_id of
                    None \<Rightarrow> Inl (AttributeError, db)
                  | Some host_state \<Rightarrow>
                      HostState_update
                        (db\<lparr>host_state_table := (host_state_table db)
                              (self_id \<mapsto> host_state\<lparr>state :=
                                 (if host_config_validated self then INITIALIZED
                                  else UNINITIALIZED)\<rparr>)\<rparr>)
                        self_id)
               else Inr db
             else Inr db)
            (\<lambda>db. Inr (db\<lparr>host_table := modify self_id
                        (\<lambda>self. self\<lparr>host_os_name :=
                           (case Host_os db self of None \<Rightarrow> None | Some name \<Rightarrow> name)\<rparr>)
                        (host_table db)\<rparr>)))"

subsection \<open>\<^verbatim>\<open>ClusterState.update\<close> (lines 822-865)\<close>

text \<open>
  Lines 837, 846 and 861 read the attribute \<^verbatim>\<open>intsalling_hosts\<close>. \<^verbatim>\<open>ClusterState\<close> declares
  \<^verbatim>\<open>installing_hosts\<close>; no class declares \<^verbatim>\<open>intsalling_hosts\<close> and no statement assigns it
  before it is read (\<^verbatim>\<open>+=\<close> reads first), so the read raises \<^verbatim>\<open>AttributeError\<close>.
\<close>

definition intsalling_hosts :: "cluster_state_record \<Rightarrow> error + int" where
  "intsalling_hosts self = Inl AttributeError"

text \<open>
  One pass of either loop of lines 833-850; \<open>state_of\<close> is the state the loop classifies
  a membership by, \<open>None\<close> when an object on the way to it is missing. An increment of
  \<^verbatim>\<open>intsalling_hosts\<close> would write no column.
\<close>

fun count_hosts ::
  "(clusterhost \<Rightarrow> state_value option) \<Rightarrow> clusterhost list \<Rightarrow> cluster_state_record \<Rightarrow>
   cluster_state_record result" where
  "count_hosts state_of [] self = Inr self"
| "count_hosts state_of (clusterhost # rest) self =
     (case state_of clusterhost of
        None \<Rightarrow> Inl (AttributeError, self)
      | Some s \<Rightarrow>
          if s = INSTALLING then
            (case intsalling_hosts self of
               Inl e \<Rightarrow> Inl (e, self)
             | Inr n \<Rightarrow> count_hosts state_of rest self)
          else if s = ERROR then
            count_hosts state_of rest (self\<lparr>failed_hosts := failed_hosts self + 1\<rparr>)
          else if s = SUCCESSFUL then
            count_hosts state_of rest (self\<lparr>completed_hosts := completed_hosts self + 1\<rparr>)
          else count_hosts state_of rest self)"

definition host_state_of :: "database \<Rightarrow> clusterhost \<Rightarrow> state_value option" where
  \<comment> \<open>\<^verbatim>\<open>clusterhost.host.state.state\<close>, lines 834-835\<close>
  "host_state_of db clusterhost =
     (case host_table db (host_id clusterhost) of
        None \<Rightarrow> None
      | Some host \<Rightarrow> map_option state (host_state_table db (host_id clusterhost)))"

definition clusterhost_state_of :: "database \<Rightarrow> clusterhost \<Rightarrow> state_value option" where
  \<comment> \<open>\<^verbatim>\<open>clusterhost.state.state\<close>, line 844\<close>
  "clusterhost_state_of db clusterhost =
     map_option state (clusterhost_state_table db (clusterhost_id clusterhost))"

definition compose_message :: "cluster_state_record \<Rightarrow> error + string" where
  \<comment> \<open>lines 857-862: the tuple is built first, reading \<^verbatim>\<open>intsalling_hosts\<close>; the format has
      three \<^verbatim>\<open>%s\<close> for four arguments, which \<^verbatim>\<open>%\<close> rejects with \<^verbatim>\<open>TypeError\<close>\<close>
  "compose_message self =
     (case intsalling_hosts self of Inl e \<Rightarrow> Inl e | Inr n \<Rightarrow> Inl TypeError)"

definition aggregate :: "cluster_state_record \<Rightarrow> cluster_state_record result" where
  \<comment> \<open>lines 851-864\<close>
  "aggregate self =
     and_then
       (if total_hosts self \<noteq> 0 then
          (case float_div (completed_hosts self) (total_hosts self) of
             Inl e \<Rightarrow> Inl (e, self)
           | Inr p \<Rightarrow> Inr (self\<lparr>percentage := p\<rparr>))
        else Inr self)
       (\<lambda>self.
          case compose_message self of
            Inl e \<Rightarrow> Inl (e, self)
          | Inr text \<Rightarrow>
              let self = self\<lparr>message := text\<rparr>
              in Inr (if failed_hosts self \<noteq> 0 then self\<lparr>severity := SEVERITY_ERROR\<rparr> else self))"

definition count_memberships ::
  "database \<Rightarrow> cluster \<Rightarrow> clusterhost list \<Rightarrow> cluster_state_record \<Rightarrow> cluster_state_record result" where
  \<comment> \<open>lines 832-850: by host state when the cluster has no distributed system, by
      membership state otherwise\<close>
  "count_memberships db cluster clusterhosts self =
     (if Cluster_distributed_system db cluster = None
      then count_hosts (host_state_of db) clusterhosts self
      else count_hosts (clusterhost_state_of db) clusterhosts self)"

definition reset_counters :: "cluster_state_record \<Rightarrow> cluster_state_record" where
  \<comment> \<open>lines 826-829\<close>
  "reset_counters self =
     (if state self \<in> set [UNINITIALIZED, INITIALIZED]
      then self\<lparr>installing_hosts := 0, failed_hosts := 0, completed_hosts := 0\<rparr>
      else self)"

definition write_back :: "nat \<Rightarrow> cluster_state_record \<Rightarrow> database \<Rightarrow> database" where
  \<comment> \<open>\<^verbatim>\<open>self\<close> is row \<open>k\<close> of the table: what the method has assigned to it is in the store\<close>
  "write_back k self db = db\<lparr>cluster_state_table := (cluster_state_table db)(k \<mapsto> self)\<rparr>"

definition ClusterState_update :: "database \<Rightarrow> nat \<Rightarrow> database result" where
  "ClusterState_update db self_id =
     (case cluster_state_table db self_id of
        None \<Rightarrow> Inl (AttributeError, db)
      | Some self \<Rightarrow>
          (case cluster_table db self_id of
             None \<Rightarrow> Inl (AttributeError, db)
           | Some cluster \<Rightarrow>
               let clusterhosts = Cluster_clusterhosts db self_id;
                   self = reset_counters (self\<lparr>total_hosts := int (length clusterhosts)\<rparr>)
               in
                 if state self = INSTALLING then
                   let db = db\<lparr>cluster_table := (cluster_table db)
                                 (self_id \<mapsto> cluster\<lparr>reinstall_distributed_system := False\<rparr>)\<rparr>
                   in (case and_then (count_memberships db cluster clusterhosts self) aggregate of
                         Inl (e, self) \<Rightarrow> Inl (e, write_back self_id self db)
                       | Inr self \<Rightarrow> Inr (write_back self_id (StateMixin_update self) db))
                 else Inr (write_back self_id (StateMixin_update self) db)))"

subsection \<open>Configuration setters\<close>

text \<open>
  \<^verbatim>\<open>util.merge_dict\<close> lives in \<^verbatim>\<open>compass/utils/util.py\<close>, outside this file; the setters
  take it as the parameter \<open>merge_dict\<close>. \<^verbatim>\<open>dict(d)\<close> copies a dictionary and
  \<^verbatim>\<open>d.update(value)\<close> overwrites its top-level keys, which on maps is \<open>d ++ value\<close>.
  The \<^verbatim>\<open>logging.info\<close> calls change no row.
\<close>

definition Host_set_patched_os_config :: "(config \<Rightarrow> config \<Rightarrow> config) \<Rightarrow> config \<Rightarrow> host \<Rightarrow> host" where
  \<comment> \<open>lines 691-695\<close>
  "Host_set_patched_os_config merge_dict v self =
     self\<lparr>host_os_config := merge_dict (host_os_config self) v, host_config_validated := False\<rparr>"

definition Host_set_put_os_config :: "config \<Rightarrow> host \<Rightarrow> host" where
  \<comment> \<open>lines 701-707\<close>
  "Host_set_put_os_config v self =
     self\<lparr>host_os_config := host_os_config self ++ v, host_config_validated := False\<rparr>"

definition ClusterHost_set_patched_package_config ::
  "(config \<Rightarrow> config \<Rightarrow> config) \<Rightarrow> config \<Rightarrow> clusterhost \<Rightarrow> clusterhost" where
  \<comment> \<open>lines 462-469\<close>
  "ClusterHost_set_patched_package_config merge_dict v self =
     self\<lparr>clusterhost_package_config := merge_dict (clusterhost_package_config self) v,
          clusterhost_config_validated := False\<rparr>"

definition ClusterHost_set_put_package_config :: "config \<Rightarrow> clusterhost \<Rightarrow> clusterhost" where
  \<comment> \<open>lines 475-484\<close>
  "ClusterHost_set_put_package_config v self =
     self\<lparr>clusterhost_package_config := clusterhost_package_config self ++ v,
          clusterhost_config_validated := False\<rparr>"

definition ClusterHost_set_patched_os_config ::
  "(config \<Rightarrow> config \<Rightarrow> config) \<Rightarrow> config \<Rightarrow> database \<Rightarrow> clusterhost \<Rightarrow> database result" where
  \<comment> \<open>lines 490-493: the write goes to the \<^verbatim>\<open>Host\<close> of the membership\<close>
  "ClusterHost_set_patched_os_config merge_dict v db self =
     (case host_table db (host_id self) of
        None \<Rightarrow> Inl (AttributeError, db)
      | Some host \<Rightarrow>
          Inr (db\<lparr>host_table := (host_table db)
                    (host_id self \<mapsto> Host_set_patched_os_config merge_dict v host)\<rparr>))"

definition ClusterHost_set_put_os_config :: "config \<Rightarrow> database \<Rightarrow> clusterhost \<Rightarrow> database result" where
  \<comment> \<open>lines 499-502\<close>
  "ClusterHost_set_put_os_config v db self =
     (case host_table db (host_id self) of
        None \<Rightarrow> Inl (AttributeError, db)
      | Some host \<Rightarrow>
          Inr (db\<lparr>host_table := (host_table db)(host_id self \<mapsto> Host_set_put_os_config v host)\<rparr>))"

definition Cluster_set_patched_os_config ::
  "(config \<Rightarrow> config \<Rightarrow> config) \<Rightarrow> config \<Rightarrow> cluster \<Rightarrow> cluster" where
  \<comment> \<open>lines 981-985\<close>
  "Cluster_set_patched_os_config merge_dict v self =
     self\<lparr>cluster_os_config := merge_dict (cluster_os_config self) v,
          cluster_config_validated := False\<rparr>"

definition Cluster_set_put_os_config :: "config \<Rightarrow> cluster \<Rightarrow> cluster" where
  \<comment> \<open>lines 991-997\<close>
  "Cluster_set_put_os_config v self =
     self\<lparr>cluster_os_config := cluster_os_config self ++ v, cluster_config_validated := False\<rparr>"

definition Cluster_set_patched_package_config ::
  "(config \<Rightarrow> config \<Rightarrow> config) \<Rightarrow> config \<Rightarrow> cluster \<Rightarrow> cluster" where
  \<comment> \<open>lines 1003-1008\<close>
  "Cluster_set_patched_package_config merge_dict v self =
     self\<lparr>cluster_package_config := merge_dict (cluster_package_config self) v,
          cluster_config_validated := False\<rparr>"

definition Cluster_set_put_package_config :: "config \<Rightarrow> cluster \<Rightarrow> cluster" where
  \<comment> \<open>lines 1014-1020\<close>
  "Cluster_set_put_package_config v self =
     self\<lparr>cluster_package_config := cluster_package_config self ++ v,
          cluster_config_validated := False\<rparr>"

subsection \<open>Example stores\<close>

text \<open>
  Small stores on which the methods are run below. Every row is written out; the helper
  functions only fill the columns that play no part.
\<close>

definition state_row :: "state_value \<Rightarrow> real \<Rightarrow> severity_value \<Rightarrow> state_record" where
  "state_row s p v = \<lparr>state = s, percentage = p, message = '''', severity = v\<rparr>"

definition cluster_state_row :: "state_value \<Rightarrow> real \<Rightarrow> cluster_state_record" where
  "cluster_state_row s p =
     \<lparr>state = s, percentage = p, message = '''', severity = INFO,
      total_hosts = 0, installing_hosts = 0, completed_hosts = 0, failed_hosts = 0\<rparr>"

definition host_row :: "bool \<Rightarrow> bool \<Rightarrow> host" where
  "host_row reinstall validated =
     \<lparr>host_os_id = None, host_os_name = None, host_os_config = Map.empty,
      host_config_validated = validated, reinstall_os = reinstall\<rparr>"

definition member_row :: "nat \<Rightarrow> nat \<Rightarrow> nat \<Rightarrow> clusterhost" where
  "member_row i c h =
     \<lparr>clusterhost_id = i, cluster_id = c, host_id = h,
      clusterhost_package_config = Map.empty, clusterhost_config_validated = True\<rparr>"

definition cluster_row :: "nat option \<Rightarrow> cluster" where
  "cluster_row ds =
     \<lparr>reinstall_distributed_system = True, distributed_system_id = ds,
      cluster_os_config = Map.empty, cluster_package_config = Map.empty,
      cluster_config_validated = True\<rparr>"

definition empty_store :: database where
  "empty_store =
     \<lparr>host_table = Map.empty, host_state_table = Map.empty, clusterhost_table = [],
      clusterhost_state_table = Map.empty, cluster_table = Map.empty,
      cluster_state_table = Map.empty, os_table = Map.empty,
      distributed_system_table = [1 \<mapsto> Some ''openstack'']\<rparr>"

text \<open>
  A cluster with a distributed system, in state INSTALLING, with four memberships in the
  states SUCCESSFUL, SUCCESSFUL, ERROR and INSTALLING; the four hosts have finished.
\<close>

definition aggregation_example :: database where
  "aggregation_example =
     empty_store
     \<lparr>host_table := [1 \<mapsto> host_row False True, 2 \<mapsto> host_row False True,
                      3 \<mapsto> host_row False True, 4 \<mapsto> host_row False True],
      host_state_table := [1 \<mapsto> state_row SUCCESSFUL 1 INFO, 2 \<mapsto> state_row SUCCESSFUL 1 INFO,
                            3 \<mapsto> state_row SUCCESSFUL 1 INFO, 4 \<mapsto> state_row SUCCESSFUL 1 INFO],
      clusterhost_table := [member_row 1 1 1, member_row 2 1 2, member_row 3 1 3, member_row 4 1 4],
      clusterhost_state_table :=
        [1 \<mapsto> state_row SUCCESSFUL 1 INFO, 2 \<mapsto> state_row SUCCESSFUL 1 INFO,
         3 \<mapsto> state_row ERROR (1/2) SEVERITY_ERROR, 4 \<mapsto> state_row INSTALLING (1/2) INFO],
      cluster_table := [1 \<mapsto> cluster_row (Some 1)],
      cluster_state_table := [1 \<mapsto> cluster_state_row INSTALLING 0]\<rparr>"

text \<open>
  A host that has finished its installation, with a reinstall requested; \<open>validated\<close>
  is its \<^verbatim>\<open>config_validated\<close> flag.
\<close>

definition gating_example :: "bool \<Rightarrow> database" where
  "gating_example validated =
     empty_store
     \<lparr>host_table := [1 \<mapsto> host_row True validated],
      host_state_table := [1 \<mapsto> state_row SUCCESSFUL 1 INFO]\<rparr>"

text \<open>
  A host whose state has just been set to UNINITIALIZED, member of three clusters with
  membership states SUCCESSFUL, ERROR and INSTALLING.
\<close>

definition cascade_example :: database where
  "cascade_example =
     empty_store
     \<lparr>host_table := [1 \<mapsto> host_row True False],
      host_state_table := [1 \<mapsto> state_row UNINITIALIZED 0 INFO],
      clusterhost_table := [member_row 1 1 1, member_row 2 2 1, member_row 3 3 1],
      clusterhost_state_table :=
        [1 \<mapsto> state_row SUCCESSFUL 1 INFO, 2 \<mapsto> state_row ERROR (1/2) SEVERITY_ERROR,
         3 \<mapsto> state_row INSTALLING (1/2) INFO],
      cluster_table := [1 \<mapsto> cluster_row (Some 1), 2 \<mapsto> cluster_row (Some 1),
                         3 \<mapsto> cluster_row (Some 1)],
      cluster_state_table := [1 \<mapsto> cluster_state_row SUCCESSFUL 1,
                               2 \<mapsto> cluster_state_row ERROR (1/2),
                               3 \<mapsto> cluster_state_row INSTALLING (1/2)]\<rparr>"

text \<open>
  A membership whose state has just been set to \<open>s\<close>, of a host that is UNINITIALIZED.
\<close>

definition promotion_example :: "state_value \<Rightarrow> database" where
  "promotion_example s =
     empty_store
     \<lparr>host_table := [1 \<mapsto> host_row True True],
      host_state_table := [1 \<mapsto> state_row UNINITIALIZED 0 INFO],
      clusterhost_table := [member_row 1 1 1],
      clusterhost_state_table := [1 \<mapsto> state_row s 0 INFO],
      cluster_table := [1 \<mapsto> cluster_row (Some 1)],
      cluster_state_table := [1 \<mapsto> cluster_state_row UNINITIALIZED 0]\<rparr>"

text \<open>
  A cluster with a distributed system, in state INSTALLING, whose one membership has
  finished.
\<close>

definition repeat_example :: database where
  "repeat_example =
     empty_store
     \<lparr>host_table := [1 \<mapsto> host_row False True],
      host_state_table := [1 \<mapsto> state_row SUCCESSFUL 1 INFO],
      clusterhost_table := [member_row 1 1 1],
      clusterhost_state_table := [1 \<mapsto> state_row SUCCESSFUL 1 INFO],
      cluster_table := [1 \<mapsto> cluster_row (Some 1)],
      cluster_state_table := [1 \<mapsto> cluster_state_row INSTALLING 0]\<rparr>"

text \<open>
  The store that a call of \<^verbatim>\<open>ClusterState.update\<close> on \<open>repeat_example\<close> leaves behind
  when it raises: the reinstall flag cleared, one host counted, percentage 1.0.
\<close>

definition accumulated_example :: database where
  "accumulated_example =
     repeat_example
     \<lparr>cluster_table := [1 \<mapsto> (cluster_row (Some 1))\<lparr>reinstall_distributed_system := False\<rparr>],
      cluster_state_table :=
        [1 \<mapsto> (cluster_state_row INSTALLING 1)\<lparr>total_hosts := 1, completed_hosts := 1\<rparr>]\<rparr>"

text \<open>A cluster without memberships, in state \<open>s\<close> at percentage \<open>p\<close>.\<close>

definition empty_cluster_example :: "state_value \<Rightarrow> real \<Rightarrow> database" where
  "empty_cluster_example s p =
     empty_store
     \<lparr>cluster_table := [1 \<mapsto> cluster_row (Some 1)],
      cluster_state_table := [1 \<mapsto> cluster_state_row s p]\<rparr>"

subsection \<open>The rules a state record is to satisfy\<close>

abbreviation rules_hold :: "'a state_record_scheme \<Rightarrow> bool" where
  "rules_hold r \<equiv>
     (state r = SUCCESSFUL \<longrightarrow> percentage r = 1) \<and>
     (state r = UNINITIALIZED \<or> state r = INITIALIZED \<longrightarrow>
        percentage r = 0 \<and> severity r = INFO \<and> message r = '''')"

abbreviation in_range :: "'a state_record_scheme \<Rightarrow> bool" where
  "in_range r \<equiv> 0 \<le> percentage r \<and> percentage r \<le> 1"

section \<open>Properties\<close>

subsection \<open>\<^verbatim>\<open>StateMixin.update\<close> by cases on the state\<close>

lemma StateMixin_update_not_started:
  "state self = UNINITIALIZED \<or> state self = INITIALIZED \<Longrightarrow>
   StateMixin_update self = self\<lparr>percentage := 0, severity := INFO, message := ''''\<rparr>"
  by (auto simp: StateMixin_update_def reset_if_not_started_def finish_if_installing_def
      complete_if_successful_def)

lemma StateMixin_update_successful:
  "state self = SUCCESSFUL \<Longrightarrow> StateMixin_update self = self\<lparr>percentage := 1\<rparr>"
  by (simp add: StateMixin_update_def reset_if_not_started_def finish_if_installing_def
      complete_if_successful_def)

lemma StateMixin_update_error:
  "state self = ERROR \<Longrightarrow> StateMixin_update self = self"
  by (simp add: StateMixin_update_def reset_if_not_started_def finish_if_installing_def
      complete_if_successful_def)

lemma StateMixin_update_installing:
  "state self = INSTALLING \<Longrightarrow>
   StateMixin_update self =
     (if severity self = SEVERITY_ERROR then self\<lparr>state := ERROR\<rparr>
      else if percentage self \<ge> 1 then self\<lparr>state := SUCCESSFUL, percentage := 1\<rparr>
      else self)"
  by (simp add: StateMixin_update_def reset_if_not_started_def finish_if_installing_def
      complete_if_successful_def)

lemma StateMixin_update_rules: "rules_hold (StateMixin_update r)"
  by (cases "state r")
     (simp_all add: StateMixin_update_not_started StateMixin_update_installing
        StateMixin_update_successful StateMixin_update_error)

lemma StateMixin_update_range: "in_range r \<Longrightarrow> in_range (StateMixin_update r)"
  by (cases "state r")
     (simp_all add: StateMixin_update_not_started StateMixin_update_installing
        StateMixin_update_successful StateMixin_update_error)

lemma StateMixin_update_idem: "StateMixin_update (StateMixin_update r) = StateMixin_update r"
  by (cases "state r")
     (simp_all add: StateMixin_update_not_started StateMixin_update_installing
        StateMixin_update_successful StateMixin_update_error)

lemmas example_rows = state_row_def cluster_state_row_def host_row_def member_row_def
  cluster_row_def empty_store_def

lemmas StateMixin_update_defs = StateMixin_update_def reset_if_not_started_def
  finish_if_installing_def complete_if_successful_def

subsection \<open>The membership tests on state objects\<close>

lemma modify_Some: "m k = Some v \<Longrightarrow> modify k f m = m(k \<mapsto> f v)"
  by (simp add: modify_def)

lemma py_in_Nil: "py_in x [] = False"
  by (simp add: py_in_def)

lemma ClusterHost_state_in_names:
  "py_in (ClusterHost_state db clusterhost) (Name n # xs) = py_in (ClusterHost_state db clusterhost) xs"
  by (auto simp: py_in_def ClusterHost_state_def split: option.splits)

lemma Host_state_in_names:
  "py_in (Host_state db h) (Name n # xs) = py_in (Host_state db h) xs"
  by (auto simp: py_in_def Host_state_def split: option.splits)

lemma state_object_is_no_name: "\<not> py_in (ClusterHost_state db clusterhost) (map Name names)"
  by (induction names) (simp_all add: py_in_Nil ClusterHost_state_in_names)

lemma cascade_to_clusterhosts_returns: "cascade_to_clusterhosts names clusterhosts db = Inr db"
  by (induction clusterhosts) (simp_all add: state_object_is_no_name)

subsection \<open>\<^verbatim>\<open>HostState.update\<close>, \<^verbatim>\<open>ClusterHostState.update\<close> and \<^verbatim>\<open>Host.update\<close> in closed form\<close>

lemma HostState_update_installing:
  assumes "host_state_table db k = Some self" "state self = INSTALLING"
  shows "HostState_update db k =
     (case host_table db k of
        None \<Rightarrow> Inl (AttributeError, db)
      | Some host \<Rightarrow>
          Inr (db\<lparr>host_table := (host_table db)(k \<mapsto> host\<lparr>reinstall_os := False\<rparr>),
                  host_state_table := (host_state_table db)(k \<mapsto> StateMixin_update self)\<rparr>))"
  using assms
  by (simp add: HostState_update_def and_then_def cascade_to_clusterhosts_returns modify_Some
      split: option.splits)

lemma HostState_update_not_started:
  assumes "host_state_table db k = Some self" "state self = UNINITIALIZED \<or> state self = INITIALIZED"
  shows "HostState_update db k =
     (case host_table db k of
        None \<Rightarrow> Inl (AttributeError, db)
      | Some host \<Rightarrow>
          Inr (db\<lparr>host_state_table := (host_state_table db)(k \<mapsto> StateMixin_update self)\<rparr>))"
  using assms
  by (auto simp: HostState_update_def and_then_def cascade_to_clusterhosts_returns modify_Some
      split: option.splits)

lemma HostState_update_finished:
  assumes "host_state_table db k = Some self" "state self = SUCCESSFUL \<or> state self = ERROR"
  shows "HostState_update db k =
     Inr (db\<lparr>host_state_table := (host_state_table db)(k \<mapsto> StateMixin_update self)\<rparr>)"
  using assms
  by (auto simp: HostState_update_def and_then_def modify_Some)

lemma HostState_update_Inr:
  assumes "HostState_update db k = Inr db'" "host_state_table db k = Some self"
  shows "host_state_table db' = (host_state_table db)(k \<mapsto> StateMixin_update self)"
    and "clusterhost_state_table db' = clusterhost_state_table db"
    and "clusterhost_table db' = clusterhost_table db"
  using assms
  by (cases "state self";
      auto simp: HostState_update_installing HostState_update_not_started HostState_update_finished
        split: option.splits)+

lemma ClusterHostState_host_id:
  "ClusterHostState_host db k = Some clusterhost \<Longrightarrow> clusterhost_id clusterhost = k"
  by (auto simp: ClusterHostState_host_def find_Some_iff)

lemma ClusterHostState_update_eq:
  "ClusterHostState_update db k =
     (case clusterhost_state_table db k of
        None \<Rightarrow> Inl (AttributeError, db)
      | Some self \<Rightarrow>
          (case ClusterHostState_host db k of
             None \<Rightarrow> Inl (AttributeError, db)
           | Some clusterhost \<Rightarrow>
               Inr (db\<lparr>clusterhost_state_table :=
                        (clusterhost_state_table db)(k \<mapsto> StateMixin_update self)\<rparr>)))"
proof (cases "clusterhost_state_table db k")
  case None
  then show ?thesis by (subst ClusterHostState_update.simps) simp
next
  case self: (Some self)
  show ?thesis
  proof (cases "ClusterHostState_host db k")
    case None
    with self show ?thesis by (subst ClusterHostState_update.simps) simp
  next
    case (Some clusterhost)
    then have id: "clusterhost_id clusterhost = k" by (rule ClusterHostState_host_id)
    show ?thesis
      by (subst ClusterHostState_update.simps)
         (cases "state self"; simp add: self Some id and_then_def modify_Some)
  qed
qed

lemma Host_update_eq:
  "Host_update db k =
     (case host_table db k of
        None \<Rightarrow> Inl (AttributeError, db)
      | Some self \<Rightarrow>
          Inr (db\<lparr>host_table := (host_table db)
                    (k \<mapsto> self\<lparr>host_os_name :=
                       (case Host_os db self of None \<Rightarrow> None | Some name \<Rightarrow> name)\<rparr>)\<rparr>))"
  by (simp add: Host_update_def and_then_def Host_state_in_names py_in_Nil modify_Some
      split: option.splits)

subsection \<open>\<^verbatim>\<open>ClusterState.update\<close> by cases on the state\<close>

lemma count_hosts_error:
  "count_hosts state_of clusterhosts self = Inl (e, x) \<Longrightarrow> e = AttributeError"
  by (induction clusterhosts arbitrary: self)
     (auto simp: intsalling_hosts_def split: option.splits if_splits)

lemma aggregate_raises: "\<exists>x. aggregate self = Inl (AttributeError, x)"
  by (simp add: aggregate_def and_then_def compose_message_def intsalling_hosts_def float_div_def)

lemma count_then_aggregate_raises:
  "\<exists>x. and_then (count_memberships db cluster clusterhosts self) aggregate = Inl (AttributeError, x)"
proof (cases "count_memberships db cluster clusterhosts self")
  case (Inl a)
  obtain e x where a: "a = (e, x)" by (cases a)
  with Inl have "e = AttributeError"
    by (auto simp: count_memberships_def dest: count_hosts_error split: if_splits)
  with Inl a show ?thesis by (simp add: and_then_def)
next
  case (Inr b)
  with aggregate_raises [of b] show ?thesis by (auto simp: and_then_def)
qed

lemma ClusterState_update_installing_raises:
  assumes "cluster_state_table db k = Some self" "state self = INSTALLING"
  shows "\<exists>db'. ClusterState_update db k = Inl (AttributeError, db')"
proof (cases "cluster_table db k")
  case None
  with assms show ?thesis by (simp add: ClusterState_update_def)
next
  case (Some cluster)
  define chs where "chs = Cluster_clusterhosts db k"
  define self1 where "self1 = reset_counters (self\<lparr>total_hosts := int (length chs)\<rparr>)"
  define db1 where "db1 = db\<lparr>cluster_table := (cluster_table db)
                                 (k \<mapsto> cluster\<lparr>reinstall_distributed_system := False\<rparr>)\<rparr>"
  have st: "state self1 = INSTALLING"
    using assms by (simp add: self1_def reset_counters_def)
  obtain x where r: "and_then (count_memberships db1 cluster chs self1) aggregate = Inl (AttributeError, x)"
    using count_then_aggregate_raises by blast
  have "ClusterState_update db k =
        (case and_then (count_memberships db1 cluster chs self1) aggregate of
           Inl (e, self) \<Rightarrow> Inl (e, write_back k self db1)
         | Inr self \<Rightarrow> Inr (write_back k (StateMixin_update self) db1))"
    using assms Some st unfolding ClusterState_update_def Let_def chs_def self1_def db1_def
    by simp
  with r show ?thesis by simp
qed

lemma ClusterState_update_other:
  assumes "cluster_state_table db k = Some self" "state self \<noteq> INSTALLING"
  shows "ClusterState_update db k =
    (case cluster_table db k of
       None \<Rightarrow> Inl (AttributeError, db)
     | Some cluster \<Rightarrow>
         Inr (write_back k
           (StateMixin_update
             (reset_counters (self\<lparr>total_hosts := int (length (Cluster_clusterhosts db k))\<rparr>))) db))"
proof -
  have "state (reset_counters (self\<lparr>total_hosts := int (length (Cluster_clusterhosts db k))\<rparr>))
        \<noteq> INSTALLING"
    using assms by (simp add: reset_counters_def)
  with assms show ?thesis
    unfolding ClusterState_update_def Let_def by (simp split: option.splits)
qed

subsection \<open>What the cascades leave untouched\<close>

lemma Host_update_keeps_states:
  "Host_update db k = Inr db' \<Longrightarrow>
   host_state_table db' = host_state_table db \<and>
   clusterhost_state_table db' = clusterhost_state_table db"
  by (auto simp: Host_update_eq split: option.splits)

lemma HostState_update_keeps_memberships:
  assumes "HostState_update db k = Inr db'"
  shows "clusterhost_state_table db' = clusterhost_state_table db"
proof (cases "host_state_table db k")
  case None
  with assms show ?thesis by (simp add: HostState_update_def)
next
  case (Some self)
  with assms show ?thesis by (rule HostState_update_Inr(2))
qed

lemma ClusterHostState_update_keeps_hosts:
  "ClusterHostState_update db k = Inr db' \<Longrightarrow>
   host_state_table db' = host_state_table db \<and> host_table db' = host_table db"
  by (auto simp: ClusterHostState_update_eq split: option.splits)

subsection \<open>Repeating \<^verbatim>\<open>update()\<close> after a call that returned\<close>

lemma HostState_update_twice:
  assumes "HostState_update db k = Inr db'"
  shows "HostState_update db' k = Inr db'"
proof (cases "host_state_table db k")
  case None
  with assms show ?thesis by (simp add: HostState_update_def)
next
  case (Some self)
  have row: "host_state_table db' k = Some (StateMixin_update self)"
    using HostState_update_Inr(1) [OF assms Some] by simp
  have idem: "(host_state_table db')(k \<mapsto> StateMixin_update (StateMixin_update self)) = host_state_table db'"
    using row by (simp add: StateMixin_update_idem fun_upd_idem)
  show ?thesis
  proof (cases "state self")
    case INSTALLING
    with assms Some obtain host where host: "host_table db k = Some host"
      and db': "db' = db\<lparr>host_table := (host_table db)(k \<mapsto> host\<lparr>reinstall_os := False\<rparr>),
                  host_state_table := (host_state_table db)(k \<mapsto> StateMixin_update self)\<rparr>"
      by (auto simp: HostState_update_installing split: option.splits)
    have h': "host_table db' k = Some (host\<lparr>reinstall_os := False\<rparr>)"
      by (simp add: db')
    show ?thesis
    proof (cases "state (StateMixin_update self) = INSTALLING")
      case True
      then show ?thesis
        using row h' idem by (simp add: HostState_update_installing fun_upd_idem)
    next
      case False
      with INSTALLING have "state (StateMixin_update self) = SUCCESSFUL \<or> state (StateMixin_update self) = ERROR"
        by (simp add: StateMixin_update_installing split: if_splits)
      then show ?thesis
        using row idem by (simp add: HostState_update_finished)
    qed
  next
    case UNINITIALIZED
    with assms Some obtain host where host: "host_table db k = Some host"
      and db': "db' = db\<lparr>host_state_table := (host_state_table db)(k \<mapsto> StateMixin_update self)\<rparr>"
      by (auto simp: HostState_update_not_started split: option.splits)
    have "host_table db' k = Some host" by (simp add: db' host)
    moreover have "state (StateMixin_update self) = UNINITIALIZED"
      using UNINITIALIZED by (simp add: StateMixin_update_not_started)
    ultimately show ?thesis
      using row idem by (simp add: HostState_update_not_started)
  next
    case INITIALIZED
    with assms Some obtain host where host: "host_table db k = Some host"
      and db': "db' = db\<lparr>host_state_table := (host_state_table db)(k \<mapsto> StateMixin_update self)\<rparr>"
      by (auto simp: HostState_update_not_started split: option.splits)
    have "host_table db' k = Some host" by (simp add: db' host)
    moreover have "state (StateMixin_update self) = INITIALIZED"
      using INITIALIZED by (simp add: StateMixin_update_not_started)
    ultimately show ?thesis
      using row idem by (simp add: HostState_update_not_started)
  next
    case SUCCESSFUL
    then have "state (StateMixin_update self) = SUCCESSFUL"
      by (simp add: StateMixin_update_successful)
    then show ?thesis
      using row idem by (simp add: HostState_update_finished)
  next
    case ERROR
    then have "state (StateMixin_update self) = ERROR"
      by (simp add: StateMixin_update_error)
    then show ?thesis
      using row idem by (simp add: HostState_update_finished)
  qed
qed

lemma ClusterHostState_update_twice:
  assumes "ClusterHostState_update db k = Inr db'"
  shows "ClusterHostState_update db' k = Inr db'"
proof -
  from assms obtain self clusterhost where
    self: "clusterhost_state_table db k = Some self" and
    ch: "ClusterHostState_host db k = Some clusterhost" and
    db': "db' = db\<lparr>clusterhost_state_table := (clusterhost_state_table db)(k \<mapsto> StateMixin_update self)\<rparr>"
    by (auto simp: ClusterHostState_update_eq split: option.splits)
  have "ClusterHostState_host db' k = Some clusterhost"
    using ch by (simp add: db' ClusterHostState_host_def)
  then show ?thesis
    by (simp add: ClusterHostState_update_eq db' StateMixin_update_idem)
qed

lemma ClusterState_update_twice:
  assumes "ClusterState_update db k = Inr db'"
  shows "ClusterState_update db' k = Inr db'"
proof -
  from assms obtain self where self: "cluster_state_table db k = Some self"
    by (auto simp: ClusterState_update_def split: option.splits)
  have st: "state self \<noteq> INSTALLING"
    using assms ClusterState_update_installing_raises [OF self] by auto
  define n where "n = int (length (Cluster_clusterhosts db k))"
  define self1 where "self1 = StateMixin_update (reset_counters (self\<lparr>total_hosts := n\<rparr>))"
  from assms self st obtain cluster where cluster: "cluster_table db k = Some cluster"
    and db': "db' = write_back k self1 db"
    by (auto simp: ClusterState_update_other self1_def n_def split: option.splits)
  have chs: "Cluster_clusterhosts db' k = Cluster_clusterhosts db k"
    by (simp add: db' write_back_def Cluster_clusterhosts_def)
  have row: "cluster_state_table db' k = Some self1"
    by (simp add: db' write_back_def)
  have st1: "state self1 \<noteq> INSTALLING"
    using st by (cases "state self")
      (simp_all add: self1_def reset_counters_def StateMixin_update_not_started
         StateMixin_update_successful StateMixin_update_error)
  have again: "StateMixin_update (reset_counters (self1\<lparr>total_hosts := n\<rparr>)) = self1"
    using st by (cases "state self")
      (simp_all add: self1_def reset_counters_def StateMixin_update_not_started
         StateMixin_update_successful StateMixin_update_error)
  have "cluster_table db' k = Some cluster"
    by (simp add: db' write_back_def cluster)
  then show ?thesis
    using row st1 again
    by (simp add: ClusterState_update_other chs n_def [symmetric])
       (simp add: db' write_back_def)
qed

subsection \<open>The bounds of the percentage\<close>

text \<open>
  On every path that returns, \<^verbatim>\<open>update()\<close> leaves the record with the rules of the state
  in force, and keeps the percentage within its bounds when it was within them.
\<close>

lemma update_establishes_rules:
  "rules_hold (StateMixin_update r) \<and> (in_range r \<longrightarrow> in_range (StateMixin_update r))
   \<and> (HostState_update hdb h = Inr hdb' \<and> host_state_table hdb h = Some hr \<longrightarrow>
        (\<exists>hr'. host_state_table hdb' h = Some hr' \<and> rules_hold hr' \<and>
           (in_range hr \<longrightarrow> in_range hr')))
   \<and> (ClusterHostState_update mdb m = Inr mdb' \<and> clusterhost_state_table mdb m = Some mr \<longrightarrow>
        (\<exists>mr'. clusterhost_state_table mdb' m = Some mr' \<and> rules_hold mr' \<and>
           (in_range mr \<longrightarrow> in_range mr')))
   \<and> (ClusterState_update cdb c = Inr cdb' \<and> cluster_state_table cdb c = Some cr \<longrightarrow>
        (\<exists>cr'. cluster_state_table cdb' c = Some cr' \<and> rules_hold cr' \<and>
           (in_range cr \<longrightarrow> in_range cr')))"
proof (intro conjI impI)
  show "state (StateMixin_update r) = SUCCESSFUL \<Longrightarrow> percentage (StateMixin_update r) = 1"
    using StateMixin_update_rules [of r] by simp
  show "state (StateMixin_update r) = UNINITIALIZED \<or> state (StateMixin_update r) = INITIALIZED
    \<Longrightarrow> percentage (StateMixin_update r) = 0"
    using StateMixin_update_rules [of r] by simp
  show "state (StateMixin_update r) = UNINITIALIZED \<or> state (StateMixin_update r) = INITIALIZED
    \<Longrightarrow> severity (StateMixin_update r) = INFO"
    using StateMixin_update_rules [of r] by simp
  show "state (StateMixin_update r) = UNINITIALIZED \<or> state (StateMixin_update r) = INITIALIZED
    \<Longrightarrow> message (StateMixin_update r) = ''''"
    using StateMixin_update_rules [of r] by simp
  show "in_range r \<Longrightarrow> 0 \<le> percentage (StateMixin_update r)"
    using StateMixin_update_range [of r] by simp
  show "in_range r \<Longrightarrow> percentage (StateMixin_update r) \<le> 1"
    using StateMixin_update_range [of r] by simp
next
  assume "HostState_update hdb h = Inr hdb' \<and> host_state_table hdb h = Some hr"
  then have "host_state_table hdb' h = Some (StateMixin_update hr)"
    using HostState_update_Inr(1) [of hdb h hdb' hr] by simp
  then show "\<exists>hr'. host_state_table hdb' h = Some hr' \<and> rules_hold hr' \<and>
      (in_range hr \<longrightarrow> in_range hr')"
    using StateMixin_update_rules [of hr] StateMixin_update_range [of hr] by simp
next
  assume "ClusterHostState_update mdb m = Inr mdb' \<and> clusterhost_state_table mdb m = Some mr"
  then have "clusterhost_state_table mdb' m = Some (StateMixin_update mr)"
    by (auto simp: ClusterHostState_update_eq split: option.splits)
  then show "\<exists>mr'. clusterhost_state_table mdb' m = Some mr' \<and> rules_hold mr' \<and>
      (in_range mr \<longrightarrow> in_range mr')"
    using StateMixin_update_rules [of mr] StateMixin_update_range [of mr] by simp
next
  assume a: "ClusterState_update cdb c = Inr cdb' \<and> cluster_state_table cdb c = Some cr"
  define cr1 where
    "cr1 = reset_counters (cr\<lparr>total_hosts := int (length (Cluster_clusterhosts cdb c))\<rparr>)"
  have p: "percentage cr1 = percentage cr"
    by (simp add: cr1_def reset_counters_def)
  have "state cr \<noteq> INSTALLING"
    using a ClusterState_update_installing_raises [of cdb c cr] by auto
  with a have "cluster_state_table cdb' c = Some (StateMixin_update cr1)"
    by (auto simp: ClusterState_update_other write_back_def cr1_def split: option.splits)
  then show "\<exists>cr'. cluster_state_table cdb' c = Some cr' \<and> rules_hold cr' \<and>
      (in_range cr \<longrightarrow> in_range cr')"
    using StateMixin_update_rules [of cr1] StateMixin_update_range [of cr1] p by simp
qed

text \<open>
  Claim C1. The claim expects \<open>0 \<le> percentage \<le> 1\<close> after every \<^verbatim>\<open>update()\<close>. A call of
  \<^verbatim>\<open>ClusterState.update\<close> on \<open>repeat_example\<close> raises and leaves the store
  \<open>accumulated_example\<close>, whose cluster state is within the bounds, at 1.0. The next call
  on that store counts the finished membership again, since the INSTALLING branch does not
  reset \<^verbatim>\<open>completed_hosts\<close>, assigns the percentage 2/1 and raises \<^verbatim>\<open>AttributeError\<close> at
  line 861: the record is left in state INSTALLING at percentage 2.0.
\<close>

theorem ClusterState_update_breaks_range:
  "ClusterState_update repeat_example 1 = Inl (AttributeError, accumulated_example)
   \<and> map_option (\<lambda>self. (state self, percentage self)) (cluster_state_table accumulated_example 1)
       = Some (INSTALLING, 1)
   \<and> (case ClusterState_update accumulated_example 1 of
         Inl (e, db) \<Rightarrow>
           e = AttributeError \<and>
           map_option (\<lambda>self. (state self, percentage self)) (cluster_state_table db 1)
             = Some (INSTALLING, 2) \<and>
           map_option in_range (cluster_state_table db 1) = Some False
       | Inr db \<Rightarrow> False)"
  by (simp add: accumulated_example_def repeat_example_def example_rows ClusterState_update_def
      Let_def reset_counters_def write_back_def Cluster_clusterhosts_def count_memberships_def
      Cluster_distributed_system_def clusterhost_state_of_def and_then_def
      intsalling_hosts_def aggregate_def float_div_def compose_message_def)

subsection \<open>The transition out of INSTALLING\<close>

text \<open>
  Claim C7. On a record whose state is INSTALLING, \<^verbatim>\<open>update()\<close> sets the state to ERROR
  when the severity is ERROR; otherwise, when the percentage is at least 1.0, it sets the
  state to SUCCESSFUL and the percentage to 1.0; in the remaining case the record is
  returned as it was, and in each case no field other than the ones named changes.
\<close>

theorem StateMixin_update_INSTALLING_transition:
  "state self = INSTALLING \<Longrightarrow>
   StateMixin_update self =
     (if severity self = SEVERITY_ERROR then self\<lparr>state := ERROR\<rparr>
      else if percentage self \<ge> 1 then self\<lparr>state := SUCCESSFUL, percentage := 1\<rparr>
      else self)"
  by (rule StateMixin_update_installing)

theorem StateMixin_update_INSTALLING_transition_witness:
  "state \<lparr>state = INSTALLING, percentage = 1, message = ''done'', severity = WARNING\<rparr> = INSTALLING
   \<and> StateMixin_update \<lparr>state = INSTALLING, percentage = 1, message = ''done'', severity = WARNING\<rparr>
     = \<lparr>state = SUCCESSFUL, percentage = 1, message = ''done'', severity = WARNING\<rparr>"
  using StateMixin_update_INSTALLING_transition
          [of "\<lparr>state = INSTALLING, percentage = 1, message = ''done'', severity = WARNING\<rparr>"]
  by simp

subsection \<open>Aggregation over the memberships of a cluster\<close>

text \<open>
  Claim C2. The claim expects the counts 2 completed, 1 failed, 1 installing of 4, the
  percentage 0.5 and the severity ERROR. On the store \<open>aggregation_example\<close> the method
  raises \<^verbatim>\<open>AttributeError\<close> when the loop reaches the membership in state INSTALLING
  (line 846 reads \<^verbatim>\<open>intsalling_hosts\<close>): the two SUCCESSFUL and the ERROR membership have
  been counted, \<^verbatim>\<open>installing_hosts\<close> is still 0, and percentage and severity have not been
  assigned.
\<close>

theorem ClusterState_update_aggregation_example:
  "(case ClusterState_update aggregation_example 1 of
      Inl (e, db) \<Rightarrow>
        e = AttributeError \<and>
        map_option (\<lambda>self. (state self, total_hosts self, installing_hosts self,
                        completed_hosts self, failed_hosts self, percentage self, severity self))
          (cluster_state_table db 1) = Some (INSTALLING, 4, 0, 2, 1, 0, INFO)
    | Inr db \<Rightarrow> False)"
  by (simp add: aggregation_example_def example_rows ClusterState_update_def Let_def
      reset_counters_def write_back_def Cluster_clusterhosts_def count_memberships_def
      Cluster_distributed_system_def clusterhost_state_of_def and_then_def
      intsalling_hosts_def)

subsection \<open>The reinstall gate of a host\<close>

text \<open>
  Claim C3. The claim expects a host in SUCCESSFUL with \<^verbatim>\<open>reinstall_os\<close> set to move to
  UNINITIALIZED, or to INITIALIZED when its configuration is validated. \<^verbatim>\<open>Host.update\<close>
  returns the store as it was, with the host still in SUCCESSFUL, for either value of
  \<^verbatim>\<open>config_validated\<close>: line 721 compares the state object with the names.
\<close>

theorem Host_update_gating_example:
  "Host_update (gating_example False) 1 = Inr (gating_example False)
   \<and> map_option state (host_state_table (gating_example False) 1) = Some SUCCESSFUL
   \<and> Host_update (gating_example True) 1 = Inr (gating_example True)
   \<and> map_option state (host_state_table (gating_example True) 1) = Some SUCCESSFUL"
  by (simp add: gating_example_def example_rows Host_update_eq Host_os_def)

subsection \<open>The cascade from a host to its memberships\<close>

text \<open>
  Claim C4. The claim expects the three memberships of a host whose state was set to
  UNINITIALIZED to end UNINITIALIZED. \<^verbatim>\<open>HostState.update\<close> returns the store as it was:
  the memberships keep the states SUCCESSFUL, ERROR and INSTALLING, since line 625
  compares each membership's state object with the names.
\<close>

theorem HostState_update_cascade_example:
  "HostState_update cascade_example 1 = Inr cascade_example
   \<and> map_option state (host_state_table cascade_example 1) = Some UNINITIALIZED
   \<and> map (\<lambda>i. map_option state (clusterhost_state_table cascade_example i)) [1, 2, 3]
       = [Some SUCCESSFUL, Some ERROR, Some INSTALLING]"
  by (simp add: cascade_example_def example_rows HostState_update_not_started
      StateMixin_update_not_started)

subsection \<open>Calling \<^verbatim>\<open>update()\<close> twice\<close>

text \<open>
  Claim C5. The claim expects a second \<^verbatim>\<open>update()\<close> to give the fields of the first. On
  a cluster in state INSTALLING with one finished membership, each call of
  \<^verbatim>\<open>ClusterState.update\<close> raises \<^verbatim>\<open>AttributeError\<close> (line 861) after it has added the
  membership to \<^verbatim>\<open>completed_hosts\<close>, which the INSTALLING branch never resets: the first
  call leaves \<^verbatim>\<open>completed_hosts\<close> 1 and percentage 1.0, the second 2 and 2.0.
\<close>

theorem ClusterState_update_repeat_example:
  "(case ClusterState_update repeat_example 1 of
      Inl (e, db) \<Rightarrow>
        e = AttributeError \<and>
        map_option (\<lambda>self. (completed_hosts self, percentage self)) (cluster_state_table db 1)
          = Some (1, 1) \<and>
        (case ClusterState_update db 1 of
           Inl (e', db') \<Rightarrow>
             e' = AttributeError \<and>
             map_option (\<lambda>self. (completed_hosts self, percentage self)) (cluster_state_table db' 1)
               = Some (2, 2)
         | Inr db' \<Rightarrow> False)
    | Inr db \<Rightarrow> False)"
  by (simp add: repeat_example_def example_rows ClusterState_update_def Let_def
      reset_counters_def write_back_def Cluster_clusterhosts_def count_memberships_def
      Cluster_distributed_system_def clusterhost_state_of_def and_then_def
      intsalling_hosts_def aggregate_def float_div_def compose_message_def)

subsection \<open>The promotion of a host by a membership\<close>

text \<open>
  Claim C6. The claim expects a membership set to INSTALLING to move its UNINITIALIZED
  host to INSTALLING, and a membership set to INITIALIZED to move it to INITIALIZED.
  \<^verbatim>\<open>ClusterHostState.update\<close> returns the store as it was, the host still UNINITIALIZED:
  \<^verbatim>\<open>self.host.state\<close> of line 397 is the membership's own state.
\<close>

theorem ClusterHostState_update_promotion_example:
  "ClusterHostState_update (promotion_example INSTALLING) 1 = Inr (promotion_example INSTALLING)
   \<and> map_option state (clusterhost_state_table (promotion_example INSTALLING) 1) = Some INSTALLING
   \<and> map_option state (host_state_table (promotion_example INSTALLING) 1) = Some UNINITIALIZED
   \<and> ClusterHostState_update (promotion_example INITIALIZED) 1 = Inr (promotion_example INITIALIZED)
   \<and> map_option state (host_state_table (promotion_example INITIALIZED) 1) = Some UNINITIALIZED"
  by (simp add: promotion_example_def example_rows ClusterHostState_update_eq
      ClusterHostState_host_def StateMixin_update_installing StateMixin_update_not_started)

subsection \<open>Configuration writes\<close>

text \<open>
  Claim C8. Every configuration setter, patch or put, on a host, a membership or a
  cluster leaves the \<^verbatim>\<open>config_validated\<close> flag of the row it writes to at false, whatever
  \<open>merge_dict\<close> returns. The two setters of a membership that write the host's
  \<^verbatim>\<open>os_config\<close> clear the flag of that host; they raise without a write when the
  membership has no host.
\<close>

theorem config_write_clears_config_validated:
  "host_config_validated (Host_set_patched_os_config merge_dict v h) = False
   \<and> host_config_validated (Host_set_put_os_config v h) = False
   \<and> clusterhost_config_validated (ClusterHost_set_patched_package_config merge_dict v m) = False
   \<and> clusterhost_config_validated (ClusterHost_set_put_package_config v m) = False
   \<and> cluster_config_validated (Cluster_set_patched_os_config merge_dict v c) = False
   \<and> cluster_config_validated (Cluster_set_put_os_config v c) = False
   \<and> cluster_config_validated (Cluster_set_patched_package_config merge_dict v c) = False
   \<and> cluster_config_validated (Cluster_set_put_package_config v c) = False
   \<and> (case ClusterHost_set_patched_os_config merge_dict v db m of
         Inl (e, db') \<Rightarrow> host_table db (host_id m) = None
       | Inr db' \<Rightarrow> map_option host_config_validated (host_table db' (host_id m)) = Some False)
   \<and> (case ClusterHost_set_put_os_config v db m of
         Inl (e, db') \<Rightarrow> host_table db (host_id m) = None
       | Inr db' \<Rightarrow> map_option host_config_validated (host_table db' (host_id m)) = Some False)"
  by (simp add: Host_set_patched_os_config_def Host_set_put_os_config_def
      ClusterHost_set_patched_package_config_def ClusterHost_set_put_package_config_def
      Cluster_set_patched_os_config_def Cluster_set_put_os_config_def
      Cluster_set_patched_package_config_def Cluster_set_put_package_config_def
      ClusterHost_set_patched_os_config_def ClusterHost_set_put_os_config_def
      split: option.splits)

subsection \<open>A cluster without memberships\<close>

text \<open>
  Claim C9. The claim expects \<^verbatim>\<open>update()\<close> on a cluster without memberships to return with
  percentage 0.0. On such a cluster in state INSTALLING at 0.5, the guard of line 851
  skips the division and assigns nothing, so the percentage stays 0.5, and the method
  raises \<^verbatim>\<open>AttributeError\<close> at line 861, where the message reads \<^verbatim>\<open>intsalling_hosts\<close>.
\<close>

theorem ClusterState_update_empty_cluster_installing:
  "Cluster_clusterhosts (empty_cluster_example INSTALLING (1/2)) 1 = []
   \<and> (case ClusterState_update (empty_cluster_example INSTALLING (1/2)) 1 of
         Inl (e, db) \<Rightarrow>
           e = AttributeError \<and>
           map_option (\<lambda>self. (state self, total_hosts self, percentage self))
             (cluster_state_table db 1) = Some (INSTALLING, 0, 1/2)
       | Inr db \<Rightarrow> False)"
  by (simp add: empty_cluster_example_def example_rows ClusterState_update_def Let_def
      reset_counters_def write_back_def Cluster_clusterhosts_def count_memberships_def
      Cluster_distributed_system_def and_then_def intsalling_hosts_def aggregate_def
      compose_message_def)

text \<open>
  The division itself cannot fail, with or without memberships; and in the other states
  a cluster without memberships gets the percentage of \<^verbatim>\<open>StateMixin.update\<close>.
\<close>

lemma ClusterState_update_empty_cluster:
  assumes "Cluster_clusterhosts db k = []"
    and "cluster_state_table db k = Some self"
    and "cluster_table db k = Some cluster"
  shows "(\<forall>db'. ClusterState_update db k \<noteq> Inl (ZeroDivisionError, db'))
    \<and> (state self \<noteq> INSTALLING \<longrightarrow>
         (\<exists>db' self'. ClusterState_update db k = Inr db' \<and>
            cluster_state_table db' k = Some self' \<and> total_hosts self' = 0 \<and>
            percentage self' =
              (if state self = UNINITIALIZED \<or> state self = INITIALIZED then 0
               else if state self = SUCCESSFUL then 1 else percentage self)))"
proof (cases "state self = INSTALLING")
  case True
  with assms(2) obtain x where "ClusterState_update db k = Inl (AttributeError, x)"
    using ClusterState_update_installing_raises by blast
  with True show ?thesis by simp
next
  case False
  define self1 where "self1 = reset_counters (self\<lparr>total_hosts := 0\<rparr>)"
  have r: "ClusterState_update db k = Inr (write_back k (StateMixin_update self1) db)"
    using assms False by (simp add: ClusterState_update_other self1_def)
  have "total_hosts (StateMixin_update self1) = 0 \<and>
        percentage (StateMixin_update self1) =
          (if state self = UNINITIALIZED \<or> state self = INITIALIZED then 0
           else if state self = SUCCESSFUL then 1 else percentage self)"
    using False by (cases "state self")
      (simp_all add: self1_def reset_counters_def StateMixin_update_not_started
         StateMixin_update_successful StateMixin_update_error)
  with r False show ?thesis by (simp add: write_back_def)
qed

subsection \<open>The reinstall flag of a host that installs\<close>

text \<open>
  Claim C10. When \<^verbatim>\<open>HostState.update\<close> runs on a state that is INSTALLING, it returns,
  and in the store it returns the owning host has \<^verbatim>\<open>reinstall_os\<close> false; beside that
  flag only the state record itself changes, by \<^verbatim>\<open>StateMixin.update\<close>.
\<close>

theorem HostState_update_clears_reinstall_os:
  assumes "host_state_table db k = Some self"
    and "state self = INSTALLING"
    and "host_table db k = Some host"
  shows "HostState_update db k =
           Inr (db\<lparr>host_table := (host_table db)(k \<mapsto> host\<lparr>reinstall_os := False\<rparr>),
                   host_state_table := (host_state_table db)(k \<mapsto> StateMixin_update self)\<rparr>)"
  using assms by (simp add: HostState_update_installing)

theorem HostState_update_clears_reinstall_os_witness:
  "host_state_table (cascade_example\<lparr>host_state_table := [1 \<mapsto> state_row INSTALLING (1/2) INFO]\<rparr>) 1
     = Some (state_row INSTALLING (1/2) INFO)
   \<and> state (state_row INSTALLING (1/2) INFO) = INSTALLING
   \<and> host_table (cascade_example\<lparr>host_state_table := [1 \<mapsto> state_row INSTALLING (1/2) INFO]\<rparr>) 1
     = Some (host_row True False)
   \<and> HostState_update (cascade_example\<lparr>host_state_table := [1 \<mapsto> state_row INSTALLING (1/2) INFO]\<rparr>) 1
     = Inr (cascade_example\<lparr>host_table := [1 \<mapsto> host_row False False],
                            host_state_table := [1 \<mapsto> state_row INSTALLING (1/2) INFO]\<rparr>)"
  using HostState_update_clears_reinstall_os
    [of "cascade_example\<lparr>host_state_table := [1 \<mapsto> state_row INSTALLING (1/2) INFO]\<rparr>" 1
        "state_row INSTALLING (1/2) INFO" "host_row True False"]
  by (simp add: cascade_example_def example_rows StateMixin_update_installing)

end
